theory Spec2Isabelle
  imports Main "HOL-Library.AList" "HOL-Library.Sublist"
begin

text \<open>
  The workspace provisioner (the container service), the screenshot collection and the
  capture service of the proctoring platform, as HOL functions over explicit states, with
  what the outside world answers (Docker, the clock, the browser page) passed in as an
  environment. Every \<open>throw\<close> of the source is a value of a sum type, and a state that a
  failing call leaves behind is returned next to the error.
\<close>

section \<open>Numbers in template literals\<close>

text \<open>
  Numbers that the source interpolates into template literals are integers (a user id is a
  database serial, a port and a millisecond clock are naturals); their \<open>toString\<close> is the
  decimal rendering. \<open>digit_char\<close> is only asked for digits below ten.
\<close>

definition digit_char :: "nat \<Rightarrow> char" where
  "digit_char d = ''0123456789'' ! d"

fun show_nat :: "nat \<Rightarrow> string" where
  "show_nat n = (if n < 10 then [digit_char n] else show_nat (n div 10) @ [digit_char (n mod 10)])"

declare show_nat.simps [simp del]

definition show_int :: "int \<Rightarrow> string" where
  "show_int i = (if i < 0 then CHR ''-'' # show_nat (nat (- i)) else show_nat (nat i))"



section \<open>The container service (WorkspaceProvisioner)\<close>

text \<open>
  \<open>subjectToImage\<close> is a plain object literal, so \<open>subjectToImage[subject]\<close> walks the
  prototype chain: besides the four own keys it answers every property name of
  \<open>Object.prototype\<close> with the inherited member (a function, or the prototype object
  itself for \<open>__proto__\<close>), all of which are truthy. Any other key gives \<open>undefined\<close>.
\<close>

datatype image_val = ImageName string | InheritedMember string

definition objectPrototypeKeys :: "string list" where
  "objectPrototypeKeys =
    [''constructor'', ''__defineGetter__'', ''__defineSetter__'', ''hasOwnProperty'',
     ''__lookupGetter__'', ''__lookupSetter__'', ''isPrototypeOf'', ''propertyIsEnumerable'',
     ''toString'', ''valueOf'', ''__proto__'', ''toLocaleString'']"

definition supportedLanguages :: "string list" where
  "supportedLanguages = [''JavaScript'', ''Java'', ''C++'', ''Python'']"

definition subjectToImage :: "string \<Rightarrow> image_val option" where
  "subjectToImage subject =
    (if subject = ''JavaScript'' then Some (ImageName ''codespace-javascript'')
     else if subject = ''Java'' then Some (ImageName ''codespace-java'')
     else if subject = ''C++'' then Some (ImageName ''codespace-cpp'')
     else if subject = ''Python'' then Some (ImageName ''codespace-python'')
     else if subject \<in> set objectPrototypeKeys then Some (InheritedMember subject)
     else None)"

text \<open>
  Errors of the service. \<open>NoDockerImage\<close> and \<open>NoMappedPort\<close> are the two \<open>throw\<close>
  statements of \<open>spinUpContainer\<close>; \<open>DockerError\<close> is a rejection of a dockerode call,
  with the HTTP status of the daemon's answer. The message of \<open>NoMappedPort\<close> is given
  without its leading emoji, which the strings of the model cannot hold.
\<close>

datatype error = NoDockerImage string | NoMappedPort | DockerError nat

definition errorMessage :: "error \<Rightarrow> string" where
  "errorMessage err =
    (case err of
       NoDockerImage subject \<Rightarrow> ''No Docker image defined for subject: '' @ subject
     | NoMappedPort \<Rightarrow> ''Could not determine mapped host port for container''
     | DockerError code \<Rightarrow> ''(HTTP code '' @ show_nat code @ '') '')"

text \<open>
  The Docker daemon, as far as the service uses it: the containers it knows, each with the
  name, image and published host port it was created with, and whether it runs. Every
  container of the service is created with \<open>AutoRemove\<close>, so a stopped container is removed.
  The daemon is taken to be well behaved: a call fails only for the reason its status code
  names (no such image or container, a name already in use, a container not running).
\<close>

record container =
  cName :: string
  cImage :: string
  cHostPort :: string
  cRunning :: bool

record world =
  activeContainers :: "(int \<times> string list) list"
  containers :: "(string \<times> container) list"
  images :: "string list"
  templateWorkspace :: bool

text \<open>
  What the outside world answers during one call of \<open>spinUpContainer\<close>: the port
  \<open>getPort()\<close> finds free, \<open>Date.now()\<close>, the id the daemon gives the new container, and
  whether the editor inside the container ever answers on its port (which the service never
  asks).
\<close>

record env =
  freePort :: nat
  now :: nat
  newId :: string
  editorReachable :: bool

definition isRunning :: "world \<Rightarrow> string \<Rightarrow> bool" where
  "isRunning w cid = (case map_of (containers w) cid of None \<Rightarrow> False | Some c \<Rightarrow> cRunning c)"

definition tracked :: "world \<Rightarrow> int \<Rightarrow> string list" where
  "tracked w userId = (case map_of (activeContainers w) userId of None \<Rightarrow> [] | Some cs \<Rightarrow> cs)"

definition docker_createContainer ::
  "env \<Rightarrow> string \<Rightarrow> image_val \<Rightarrow> string \<Rightarrow> world \<Rightarrow> (error + string) \<times> world" where
  "docker_createContainer e name img port w =
    (case img of
       InheritedMember _ \<Rightarrow> (Inl (DockerError 400), w)
     | ImageName i \<Rightarrow>
         if i \<notin> set (images w) then (Inl (DockerError 404), w)
         else if name \<in> set (map (cName \<circ> snd) (containers w)) then (Inl (DockerError 409), w)
         else (Inr (newId e),
               w\<lparr>containers := AList.update (newId e)
                     \<lparr>cName = name, cImage = i, cHostPort = port, cRunning = False\<rparr>
                     (containers w)\<rparr>))"

definition container_start :: "string \<Rightarrow> world \<Rightarrow> (error + unit) \<times> world" where
  "container_start cid w =
    (case map_of (containers w) cid of
       None \<Rightarrow> (Inl (DockerError 404), w)
     | Some c \<Rightarrow>
         if cRunning c then (Inl (DockerError 304), w)
         else (Inr (), w\<lparr>containers := AList.update cid (c\<lparr>cRunning := True\<rparr>) (containers w)\<rparr>))"

text \<open>\<open>container.inspect()\<close>: the id and \<open>NetworkSettings.Ports["8080/tcp"]?.[0]?.HostPort\<close>,
  which a container that does not run does not have.\<close>

definition container_inspect :: "string \<Rightarrow> world \<Rightarrow> error + (string \<times> string option)" where
  "container_inspect cid w =
    (case map_of (containers w) cid of
       None \<Rightarrow> Inl (DockerError 404)
     | Some c \<Rightarrow> Inr (cid, if cRunning c then Some (cHostPort c) else None))"

definition container_stop :: "string \<Rightarrow> world \<Rightarrow> (error + unit) \<times> world" where
  "container_stop cid w =
    (case map_of (containers w) cid of
       None \<Rightarrow> (Inl (DockerError 404), w)
     | Some c \<Rightarrow>
         if cRunning c then (Inr (), w\<lparr>containers := AList.delete cid (containers w)\<rparr>)
         else (Inl (DockerError 304), w))"

text \<open>
  \<open>cleanupUserContainers\<close>: stop each container tracked for the user, swallowing every
  error, then delete the user's entry.
\<close>

fun stopEach :: "string list \<Rightarrow> world \<Rightarrow> world" where
  "stopEach [] w = w"
| "stopEach (cid # rest) w =
    (case container_stop cid w of
       (Inr _, w') \<Rightarrow> stopEach rest w'
     | (Inl _, w') \<Rightarrow> stopEach rest w')"

definition cleanupUserContainers :: "int \<Rightarrow> world \<Rightarrow> world" where
  "cleanupUserContainers userId w =
    (let userContainers = tracked w userId;
         w1 = stopEach userContainers w
     in w1\<lparr>activeContainers := AList.delete userId (activeContainers w1)\<rparr>)"

text \<open>
  The tracking loop of \<open>stopContainer\<close>: the first entry, in the Map's insertion order,
  whose list holds the id loses its first occurrence (and the entry goes when the list is
  empty); then the loop breaks.
\<close>

fun untrack :: "string \<Rightarrow> (int \<times> string list) list \<Rightarrow> (int \<times> string list) list" where
  "untrack cid [] = []"
| "untrack cid ((userId, cs) # rest) =
    (if cid \<in> set cs
     then (let cs' = remove1 cid cs in if cs' = [] then rest else (userId, cs') # rest)
     else (userId, cs) # untrack cid rest)"

text \<open>\<open>stopContainer\<close>: the whole body after \<open>getContainer\<close> is inside \<open>try\<close>, and the
  \<open>catch\<close> only logs.\<close>

definition stopContainer :: "string \<Rightarrow> world \<Rightarrow> (error + unit) \<times> world" where
  "stopContainer containerId w =
    (case container_stop containerId w of
       (Inr _, w') \<Rightarrow> (Inr (), w'\<lparr>activeContainers := untrack containerId (activeContainers w')\<rparr>)
     | (Inl _, w') \<Rightarrow> (Inr (), w'))"

definition containerName :: "int \<Rightarrow> nat \<Rightarrow> string" where
  "containerName userId t = ''codespace_'' @ show_int userId @ ''_'' @ show_nat t"

definition editorUrl :: "string \<Rightarrow> string" where
  "editorUrl hostMappedPort = ''http://localhost:'' @ hostMappedPort"

definition track :: "int \<Rightarrow> string \<Rightarrow> world \<Rightarrow> world" where
  "track userId containerId w =
    w\<lparr>activeContainers := AList.update userId (tracked w userId @ [containerId]) (activeContainers w)\<rparr>"

text \<open>
  \<open>spinUpContainer\<close>, in the order of the source: the clean-up of the user's containers,
  \<open>getPort()\<close>, the image lookup and its \<open>throw\<close>, the template directory, the creation
  with the port published, the start, the inspection and its \<open>throw\<close>, the tracking. The
  state that a failing call leaves is returned with the error. The reading of the
  container's logs at the end is taken to succeed.
\<close>

definition spinUpContainer ::
  "env \<Rightarrow> string \<Rightarrow> int \<Rightarrow> world \<Rightarrow> (error + (string \<times> string)) \<times> world" where
  "spinUpContainer e subject userId w0 =
    (let w1 = cleanupUserContainers userId w0;
         hostPort = freePort e
     in case subjectToImage subject of
          None \<Rightarrow> (Inl (NoDockerImage subject), w1)
        | Some img \<Rightarrow>
            (let name = containerName userId (now e);
                 w2 = w1\<lparr>templateWorkspace := True\<rparr>
             in case docker_createContainer e name img (show_nat hostPort) w2 of
                  (Inl err, w3) \<Rightarrow> (Inl err, w3)
                | (Inr cid, w3) \<Rightarrow>
                    (case container_start cid w3 of
                       (Inl err, w4) \<Rightarrow> (Inl err, w4)
                     | (Inr _, w4) \<Rightarrow>
                         (case container_inspect cid w4 of
                            Inl err \<Rightarrow> (Inl err, w4)
                          | Inr (containerId, hostMappedPort) \<Rightarrow>
                              (case hostMappedPort of
                                 None \<Rightarrow> (Inl NoMappedPort, w4)
                               | Some p \<Rightarrow>
                                   if p = [] then (Inl NoMappedPort, w4)
                                   else (Inr (editorUrl p, containerId),
                                         track userId containerId w4))))))"

text \<open>
  The route \<open>POST /api/container/spin-up\<close>: 401 without a user id, the JSON of the result
  on success, 400 when the error message starts with "No Docker image defined", 500 with
  the message otherwise.
\<close>

datatype response = Json string string | Status nat string

definition spin_up_route ::
  "env \<Rightarrow> int option \<Rightarrow> string \<Rightarrow> world \<Rightarrow> response \<times> world" where
  "spin_up_route e user language w =
    (case user of
       None \<Rightarrow> (Status 401 ''Unauthorized: user not found'', w)
     | Some uid \<Rightarrow>
         if uid = 0 then (Status 401 ''Unauthorized: user not found'', w)
         else (case spinUpContainer e language uid w of
                 (Inr (url, containerId), w') \<Rightarrow> (Json url containerId, w')
               | (Inl err, w') \<Rightarrow>
                   if errorMessage err \<noteq> [] \<and> prefix ''No Docker image defined'' (errorMessage err)
                   then (Status 400 ''Unsupported language'', w')
                   else (Status 500 (if errorMessage err \<noteq> [] then errorMessage err
                                     else ''Failed to spin up container''), w')))"


section \<open>JavaScript strings\<close>

text \<open>
  A string of the model is the list of the code units of the JavaScript string, for strings
  whose code units are below 256, so \<open>length\<close> is \<open>.length\<close>. \<open>includes\<close> (here \<open>str_includes\<close>),
  \<open>startsWith\<close> and \<open>endsWith\<close> compare code units; \<open>trim\<close> strips the white space
  of that range; \<open>toLowerCase\<close> maps the capital letters of that range (A to Z and the
  accented capitals), while XPath's \<open>translate\<close> in the source maps A to Z only.
\<close>

definition str_includes :: "string \<Rightarrow> string \<Rightarrow> bool" where
  "str_includes s sub = sublist sub s"

definition startsWith :: "string \<Rightarrow> string \<Rightarrow> bool" where
  "startsWith s pre = prefix pre s"

definition endsWith :: "string \<Rightarrow> string \<Rightarrow> bool" where
  "endsWith s suf = suffix suf s"

definition is_space :: "char \<Rightarrow> bool" where
  "is_space c = ((of_char c :: nat) \<in> {9, 10, 11, 12, 13, 32, 160})"

definition trim :: "string \<Rightarrow> string" where
  "trim s = rev (dropWhile is_space (rev (dropWhile is_space s)))"

definition lower_ascii :: "char \<Rightarrow> char" where
  "lower_ascii c =
    (if (65::nat) \<le> of_char c \<and> of_char c \<le> (90::nat) then char_of (of_char c + (32::nat)) else c)"

definition lower_char :: "char \<Rightarrow> char" where
  "lower_char c =
    (if (192::nat) \<le> of_char c \<and> of_char c \<le> (222::nat) \<and> of_char c \<noteq> (215::nat)
     then char_of (of_char c + (32::nat)) else lower_ascii c)"

definition toLowerCase :: "string \<Rightarrow> string" where
  "toLowerCase s = map lower_char s"

section \<open>The screenshot collection (ArtifactStore)\<close>

text \<open>
  The \<open>image\<close> field as it arrives at run time: absent (\<open>undefined\<close> or \<open>null\<close>), a value
  that is no string, or a string. Field names that several interfaces of the source share
  (\<open>userId\<close>, \<open>image\<close>, \<open>subject\<close>, \<open>filename\<close>, \<open>timestamp\<close>, \<open>containerUrl\<close>,
  \<open>captureType\<close>, \<open>error\<close>) carry a prefix in all but one of the records below, and
  \<open>_id\<close> is \<open>objectId\<close>.
\<close>

datatype js_image = ImageMissing | ImageNotString | ImageString string

datatype capture_type = Browser | Desktop

record puppeteer_metadata =
  timestamp :: "string option"
  containerUrl :: "string option"
  metaSubject :: string
  metaFilename :: "string option"
  captureEvent :: string
  screenResolution :: "nat \<times> nat"
  fileSize :: nat
  isCodespaceCapture :: bool
  captureQuality :: string
  metaCaptureType :: capture_type

text \<open>The legacy format is told apart by having no \<open>containerUrl\<close>; of its fields the store
  reads only \<open>captureNumber\<close>, for a log line.\<close>

datatype metadata = PuppeteerMeta puppeteer_metadata | LegacyMeta nat

record screenshot_data =
  shotUserId :: int
  shotImage :: js_image
  shotMetadata :: metadata

record screenshot_log = screenshot_data +
  objectId :: nat
  createdAt :: nat

datatype store_error = ImageMissingOrNotString | NoDataUriPrefix | DuplicateKey | RetrieveFailed | FileNotFound

definition storeErrorMessage :: "store_error \<Rightarrow> string" where
  "storeErrorMessage err =
    (case err of
       ImageMissingOrNotString \<Rightarrow> ''Invalid screenshot: image data is missing or not a string''
     | NoDataUriPrefix \<Rightarrow> ''Invalid screenshot: image must include data URI prefix (data:image/...)''
     | DuplicateKey \<Rightarrow> ''E11000 duplicate key error collection: coding_lab_monitoring.screenshots''
     | RetrieveFailed \<Rightarrow> ''Failed to retrieve saved screenshot''
     | FileNotFound \<Rightarrow> ''ENOENT: no such file or directory'')"

text \<open>The collection: \<open>insertOne\<close> appends unless the identifier is taken; \<open>findOne\<close> by
  identifier.\<close>

definition insertOne :: "screenshot_log \<Rightarrow> screenshot_log list \<Rightarrow> (store_error + nat) \<times> screenshot_log list" where
  "insertOne document coll =
    (if objectId document \<in> set (map objectId coll) then (Inl DuplicateKey, coll)
     else (Inr (objectId document), coll @ [document]))"

definition findOne :: "nat \<Rightarrow> screenshot_log list \<Rightarrow> screenshot_log option" where
  "findOne oid coll = find (\<lambda>d. objectId d = oid) coll"

text \<open>
  \<open>MongoDBService.saveScreenshot\<close>. \<open>oid\<close> is the identifier the driver generates for the
  document and \<open>clock\<close> is \<open>new Date()\<close>.
\<close>

definition saveScreenshot ::
  "nat \<Rightarrow> nat \<Rightarrow> screenshot_data \<Rightarrow> screenshot_log list \<Rightarrow> (store_error + screenshot_log) \<times> screenshot_log list" where
  "saveScreenshot oid clock screenshotData coll =
    (case shotImage screenshotData of
       ImageMissing \<Rightarrow> (Inl ImageMissingOrNotString, coll)
     | ImageNotString \<Rightarrow> (Inl ImageMissingOrNotString, coll)
     | ImageString s \<Rightarrow>
         if s = [] then (Inl ImageMissingOrNotString, coll)
         else if \<not> startsWith s ''data:image/'' then (Inl NoDataUriPrefix, coll)
         else
           (let document = screenshot_data.extend screenshotData
                             (screenshot_log.fields oid clock)
            in case insertOne document coll of
                 (Inl err, coll') \<Rightarrow> (Inl err, coll')
               | (Inr insertedId, coll') \<Rightarrow>
                   (case findOne insertedId coll' of
                      None \<Rightarrow> (Inl RetrieveFailed, coll')
                    | Some savedDoc \<Rightarrow> (Inr savedDoc, coll'))))"

section \<open>The capture service (CaptureEngine and RemoteEditorDriver)\<close>

record screenshot_result =
  success :: bool
  filePath :: "string option"
  filename :: "string option"
  resultTimestamp :: "string option"
  resultContainerUrl :: "string option"
  resultUserId :: int
  resultSubject :: string
  errorText :: "string option"
  imageSize :: "nat option"
  screenInfo :: "(nat \<times> nat) option"
  captureType :: capture_type

text \<open>
  The state of the service that the captures read and write: the cached display
  resolution, whether the shared browser is up, the files under the working directory, and
  the \<open>screenshots\<close> collection.
\<close>

record service =
  systemScreenSize :: "(nat \<times> nat) option"
  browser :: bool
  files :: "(string \<times> nat list) list"
  screenshots :: "screenshot_log list"

text \<open>What the driver does to the browser, in order.\<close>

datatype event =
    Launch
  | Goto string
  | Wait nat
  | Poll
  | ClickButton
  | ListButtons
  | WaitForButton
  | ClickTrust string
  | DebugSnapshot
  | ProbePassword
  | TypePassword string
  | PressEnter
  | WaitForShell
  | WorkspaceSetup
  | WaitForEditor
  | AnalyseContent bool
  | Screenshot string
  | ClosePage

text \<open>One reading of the capture page by \<open>page.evaluate\<close>: \<open>window.capturedImageData\<close> and
  \<open>window.captureError\<close>.\<close>

record poll_result =
  imageData :: "string option"
  captureError :: "string option"

text \<open>A button of the editor page: its \<open>textContent\<close>, its first text node (what XPath's
  \<open>text()\<close> reads), its \<open>aria-label\<close>, and the text of the buttons in its shadow root.\<close>

record button =
  textContent :: string
  firstText :: string
  ariaLabel :: "string option"
  shadowButtons :: "string list"

text \<open>What the content analysis reads of the editor page: the text of every
  \<open>.monaco-editor .view-lines\<close> node, of every tab label and of every terminal screen, in
  document order, and whether the workbench, the explorer and the activity bar exist.\<close>

record editor_dom =
  viewLines :: "string list"
  tabLabels :: "string list"
  terminals :: "string list"
  hasWorkbench :: bool
  hasExplorer :: bool
  hasActivitybar :: bool

text \<open>
  What the outside world answers during one capture: the detected display (none when the
  detection fails), failures of the browser launch, of the navigation and of the final
  screenshot, the clock readings, the working directory, the codec, and the page as each
  step of the driver finds it.
\<close>

record capture_env =
  detectedScreen :: "(nat \<times> nat) option"
  launchError :: "string option"
  gotoError :: "string option"
  screenshotError :: "string option"
  stampForFile :: string
  stampForResult :: string
  cwd :: string
  base64_decode :: "string \<Rightarrow> nat list"
  base64_encode :: "nat list \<Rightarrow> string"
  objectIdGen :: nat
  dateNow :: nat
  polls :: "nat \<Rightarrow> poll_result"
  buttons :: "button list"
  passwordInput :: bool
  shellAppears :: bool
  editorAppears :: bool
  dom :: editor_dom
  capturedBytes :: "nat list"

subsection \<open>Shared helpers\<close>

definition getSystemScreenSize :: "capture_env \<Rightarrow> service \<Rightarrow> (nat \<times> nat) \<times> service" where
  "getSystemScreenSize e s =
    (case systemScreenSize s of
       Some sz \<Rightarrow> (sz, s)
     | None \<Rightarrow>
         (case detectedScreen e of
            Some sz \<Rightarrow> (sz, s\<lparr>systemScreenSize := Some sz\<rparr>)
          | None \<Rightarrow> ((1920, 1080), s\<lparr>systemScreenSize := Some (1920, 1080)\<rparr>)))"

text \<open>\<open>.replace(/[:.]/g, '-')\<close> on an ISO timestamp.\<close>

definition fileStamp :: "string \<Rightarrow> string" where
  "fileStamp stamp = map (\<lambda>c. if c = CHR '':'' \<or> c = CHR ''.'' then CHR ''-'' else c) stamp"

definition screenshotsDir :: "capture_env \<Rightarrow> string" where
  "screenshotsDir e = cwd e @ ''/screenshots''"

text \<open>\<open>Math.round(n / 1024)\<close> on a byte count.\<close>

definition roundKB :: "nat \<Rightarrow> nat" where
  "roundKB n = (n + 512) div 1024"

text \<open>A value that is a string or absent (\<open>undefined\<close>, \<open>null\<close>): its truthiness, and its
  characters where it is used as a string.\<close>

definition truthy :: "string option \<Rightarrow> bool" where
  "truthy v = (case v of None \<Rightarrow> False | Some s \<Rightarrow> s \<noteq> [])"

definition strOf :: "string option \<Rightarrow> string" where
  "strOf v = (case v of None \<Rightarrow> [] | Some s \<Rightarrow> s)"

subsection \<open>Strategy B: the desktop capture\<close>

definition timeoutMessage :: string where
  "timeoutMessage = ''Desktop capture timed out - could not capture screen data''"

text \<open>
  The polling loop of \<open>captureDesktopScreen\<close>: \<open>while (attempts > 0 && !imageData)\<close>,
  started with \<open>attempts = 8\<close>, so that the reading of a round is number \<open>8 - attempts\<close>.
  The result is the message of the \<open>throw\<close> that ends the capture, or the image.
\<close>

fun pollLoop :: "(nat \<Rightarrow> poll_result) \<Rightarrow> nat \<Rightarrow> (string + string) \<times> event list" where
  "pollLoop page attempts =
    (if attempts = 0 then (Inl timeoutMessage, [])
     else
       (let result = page (8 - attempts)
        in if truthy (captureError result)
           then (Inl (''Desktop capture failed: '' @ strOf (captureError result)), [Poll])
           else if truthy (imageData result) \<and> length (strOf (imageData result)) > 1000
           then (Inr (strOf (imageData result)), [Poll])
           else
             (let retrigger = (if attempts \<le> 5 then [ClickButton, Wait 1000] else []);
                  (r, evs) = pollLoop page (attempts - 1)
              in (r, [Poll] @ retrigger @ [Wait 3000] @ evs))))"

declare pollLoop.simps [simp del]

definition failedResult :: "string \<Rightarrow> string \<Rightarrow> int \<Rightarrow> string \<Rightarrow> capture_type \<Rightarrow> screenshot_result" where
  "failedResult msg url userId subject ct =
    \<lparr>success = False, filePath = None, filename = None, resultTimestamp = None,
     resultContainerUrl = Some url, resultUserId = userId, resultSubject = subject,
     errorText = Some msg, imageSize = None, screenInfo = None, captureType = ct\<rparr>"

definition splitComma1 :: "string \<Rightarrow> string" where
  "splitComma1 s = takeWhile (\<lambda>c. c \<noteq> CHR '','') (drop 1 (dropWhile (\<lambda>c. c \<noteq> CHR '','') s))"

text \<open>\<open>imageData.split(',')[1]\<close> is \<open>undefined\<close> for a string with no comma, and
  \<open>Buffer.from(undefined, 'base64')\<close> throws.\<close>

definition bufferTypeError :: string where
  "bufferTypeError = ''The first argument must be of type string or an instance of Buffer''"

definition captureDesktopScreen ::
  "capture_env \<Rightarrow> int \<Rightarrow> string \<Rightarrow> string \<Rightarrow> service \<Rightarrow> (screenshot_result \<times> event list) \<times> service" where
  "captureDesktopScreen e userId subject captureEvt s0 =
    (let (screenSize, s1) = getSystemScreenSize e s0
     in case launchError e of
          Some msg \<Rightarrow> ((failedResult msg ''desktop-capture'' userId subject Desktop, []), s1)
        | None \<Rightarrow>
            (case pollLoop (polls e) 8 of
               (Inl msg, evs) \<Rightarrow>
                 ((failedResult msg ''desktop-capture'' userId subject Desktop,
                   [Launch, Wait 3000] @ evs @ [ClosePage]), s1)
             | (Inr img, evs) \<Rightarrow>
                 if CHR '','' \<notin> set img
                 then ((failedResult bufferTypeError ''desktop-capture'' userId subject Desktop,
                        [Launch, Wait 3000] @ evs @ [ClosePage]), s1)
                 else
                 (let name = ''desktop-user-'' @ show_int userId @ ''-'' @ subject @ ''-'' @ captureEvt
                               @ ''-'' @ fileStamp (stampForFile e) @ ''.jpg'';
                      path = screenshotsDir e @ ''/'' @ name;
                      buffer = base64_decode e (splitComma1 img);
                      s2 = s1\<lparr>files := AList.update path buffer (files s1)\<rparr>
                  in ((\<lparr>success = True, filePath = Some path, filename = Some name,
                         resultTimestamp = Some (stampForResult e),
                         resultContainerUrl = Some ''desktop-capture'', resultUserId = userId,
                         resultSubject = subject, errorText = None,
                         imageSize = Some (roundKB (length buffer)),
                         screenInfo = Some screenSize, captureType = Desktop\<rparr>,
                       [Launch, Wait 3000] @ evs @ [ClosePage]), s2))))"

text \<open>
  The part common to \<open>captureDesktopAndSaveToMongoDB\<close> and \<open>captureAndSaveToMongoDB\<close>:
  when the capture succeeded and left a file, read it, save the document, and delete the
  file; a failure of the reading or of the save turns the result into a failed one and
  leaves the file.
\<close>

definition saveResult ::
  "capture_env \<Rightarrow> int \<Rightarrow> string \<Rightarrow> string option \<Rightarrow> bool \<Rightarrow> screenshot_result \<Rightarrow> service
     \<Rightarrow> screenshot_result \<times> service" where
  "saveResult e userId captureEvt url codespace result s =
    (case filePath result of
       None \<Rightarrow> (result, s)
     | Some path \<Rightarrow>
         if \<not> success result \<or> path = [] then (result, s)
         else
           (case map_of (files s) path of
              None \<Rightarrow>
                (result\<lparr>success := False,
                        errorText := Some (''MongoDB save failed: '' @ storeErrorMessage FileNotFound)\<rparr>, s)
            | Some imageBuffer \<Rightarrow>
                (let base64Image = ''data:image/jpeg;base64,'' @ base64_encode e imageBuffer;
                     screenSize = (case screenInfo result of Some sz \<Rightarrow> sz | None \<Rightarrow> (1920, 1080));
                     screenshotData =
                       \<lparr>shotUserId = userId, shotImage = ImageString base64Image,
                        shotMetadata = PuppeteerMeta
                          \<lparr>timestamp = resultTimestamp result, containerUrl = url,
                           metaSubject = resultSubject result, metaFilename = filename result,
                           captureEvent = captureEvt, screenResolution = screenSize,
                           fileSize = (case imageSize result of Some n \<Rightarrow> n | None \<Rightarrow> 0),
                           isCodespaceCapture = codespace, captureQuality = ''high'',
                           metaCaptureType = captureType result\<rparr>\<rparr>
                 in case saveScreenshot (objectIdGen e) (dateNow e) screenshotData (screenshots s) of
                      (Inl err, coll) \<Rightarrow>
                        (result\<lparr>success := False,
                                errorText := Some (''MongoDB save failed: '' @ storeErrorMessage err)\<rparr>,
                         s\<lparr>screenshots := coll\<rparr>)
                    | (Inr _, coll) \<Rightarrow>
                        (result, s\<lparr>screenshots := coll, files := AList.delete path (files s)\<rparr>))))"

definition captureDesktopAndSaveToMongoDB ::
  "capture_env \<Rightarrow> int \<Rightarrow> string \<Rightarrow> string \<Rightarrow> service \<Rightarrow> (screenshot_result \<times> event list) \<times> service" where
  "captureDesktopAndSaveToMongoDB e userId subject captureEvt s0 =
    (case captureDesktopScreen e userId subject captureEvt s0 of
       ((result, evs), s1) \<Rightarrow>
         (case saveResult e userId captureEvt (Some ''desktop-capture'') False result s1 of
            (result', s2) \<Rightarrow> ((result', evs), s2)))"

subsection \<open>Strategy A: the editor capture\<close>

definition trustText :: string where
  "trustText = ''trust the authors''"

definition mentionsTrust :: "string \<Rightarrow> bool" where
  "mentionsTrust t = str_includes (toLowerCase t) trustText"

definition xpathMentionsTrust :: "string \<Rightarrow> bool" where
  "xpathMentionsTrust t = str_includes (map lower_ascii t) trustText"

text \<open>
  The in-page search for the trust button, in the source's order: the \<open>aria-label\<close>
  selector, the text of each button, the XPath over each button's \<open>text()\<close>, and the
  buttons inside shadow roots. The result is the text of the button that is clicked.
\<close>

definition findTrustInPage :: "button list \<Rightarrow> string option" where
  "findTrustInPage bs =
    (case find (\<lambda>b. case ariaLabel b of None \<Rightarrow> False
                     | Some a \<Rightarrow> str_includes a ''trust'' \<and> str_includes a ''authors'') bs of
       Some b \<Rightarrow> Some (textContent b)
     | None \<Rightarrow>
         (case find (\<lambda>b. mentionsTrust (textContent b)) bs of
            Some b \<Rightarrow> Some (textContent b)
          | None \<Rightarrow>
              (case find (\<lambda>b. xpathMentionsTrust (firstText b)) bs of
                 Some b \<Rightarrow> Some (textContent b)
               | None \<Rightarrow> find mentionsTrust (concat (map shadowButtons bs)))))"

text \<open>
  The workspace-trust handler (the block headed "Workspace Trust Popup Handler"): a wait,
  the listing of the buttons, then inside \<open>try\<close> the wait for a button (20 s, a time-out
  is caught), the in-page search, the search through Puppeteer's handles when that found
  nothing, and the click or the debug snapshot (whose file the model does not keep).
\<close>

definition handleTrust :: "capture_env \<Rightarrow> event list" where
  "handleTrust e =
    [Wait 2000, ListButtons, WaitForButton] @
    (if buttons e = [] then []
     else
       (case findTrustInPage (buttons e) of
          Some t \<Rightarrow> [ClickTrust t, Wait 2000]
        | None \<Rightarrow>
            (case find (\<lambda>b. mentionsTrust (textContent b)) (buttons e) of
               Some b \<Rightarrow> [ClickTrust (textContent b), Wait 2000]
             | None \<Rightarrow> [DebugSnapshot])))"

text \<open>
  The authentication block ("Handle code-server authentication if needed"): when a password
  input is there, type the shared password, press Enter, wait, and wait for the editor
  shell (15 s, a time-out is caught).
\<close>

definition handleLogin :: "capture_env \<Rightarrow> event list" where
  "handleLogin e =
    [ProbePassword] @
    (if passwordInput e
     then [TypePassword ''cs1234'', PressEnter, Wait 5000, WaitForShell] @
          (if shellAppears e then [Wait 3000] else [])
     else [])"

text \<open>
  The content analysis that \<open>page.evaluate\<close> runs before the screenshot.
\<close>

record content_result =
  found :: bool
  contentType :: string
  content :: string

definition placeholderFree :: "string \<Rightarrow> bool" where
  "placeholderFree c =
    (\<not> str_includes c ''Get Started'' \<and> \<not> str_includes c ''Welcome''
     \<and> \<not> str_includes c ''Choose a language'')"

definition looksLikeCode :: "string \<Rightarrow> bool" where
  "looksLikeCode c =
    (str_includes c ''function'' \<or> str_includes c ''console.log'' \<or> str_includes c ''print(''
     \<or> str_includes c ''public class'' \<or> str_includes c ''#include'' \<or> str_includes c ''def ''
     \<or> str_includes c ''='' \<or> str_includes c ''{'' \<or> str_includes c '';'')"

definition monacoCode :: "string \<Rightarrow> bool" where
  "monacoCode t =
    (t \<noteq> [] \<and> length (trim t) > 10 \<and> placeholderFree (trim t) \<and> looksLikeCode (trim t))"

definition isCodeFileName :: "string \<Rightarrow> bool" where
  "isCodeFileName t =
    (endsWith t ''.js'' \<or> endsWith t ''.py'' \<or> endsWith t ''.java'' \<or> endsWith t ''.cpp''
     \<or> endsWith t ''.html'' \<or> endsWith t ''.css'' \<or> endsWith t ''.json'' \<or> endsWith t ''.md'')"

definition activeEditorText :: "editor_dom \<Rightarrow> string option" where
  "activeEditorText d = (case viewLines d of [] \<Rightarrow> None | v # _ \<Rightarrow> Some v)"

definition hasContent :: "editor_dom \<Rightarrow> content_result" where
  "hasContent d =
    (case find monacoCode (viewLines d) of
       Some t \<Rightarrow> \<lparr>found = True, contentType = ''monaco-code'', content = take 100 (trim t)\<rparr>
     | None \<Rightarrow>
         if list_ex isCodeFileName (tabLabels d) \<and> truthy (activeEditorText d)
            \<and> length (trim (strOf (activeEditorText d))) > 5
         then \<lparr>found = True, contentType = ''code-file'',
               content = take 100 (trim (strOf (activeEditorText d)))\<rparr>
         else
           (case find (\<lambda>t. t \<noteq> [] \<and> length (trim t) > 10) (terminals d) of
              Some t \<Rightarrow> \<lparr>found = True, contentType = ''terminal'', content = take 100 t\<rparr>
            | None \<Rightarrow>
                if hasWorkbench d \<and> (hasExplorer d \<or> hasActivitybar d)
                then \<lparr>found = True, contentType = ''workspace'',
                      content = ''VS Code workspace loaded''\<rparr>
                else \<lparr>found = False, contentType = ''none'', content = []\<rparr>))"

text \<open>The block "Enhanced content detection": wait for an editor selector (10 s, a
  time-out is caught), analyse, and wait two more seconds when content was found.\<close>

definition detectContent :: "capture_env \<Rightarrow> event list" where
  "detectContent e =
    [WaitForEditor] @
    (if editorAppears e
     then [Wait 3000, AnalyseContent (found (hasContent (dom e)))] @
          (if found (hasContent (dom e)) then [Wait 2000] else [])
     else [])"

text \<open>\<open>initBrowser\<close>: the shared browser is launched on first use.\<close>

definition initBrowser :: "capture_env \<Rightarrow> service \<Rightarrow> (string + event list) \<times> service" where
  "initBrowser e s =
    (if browser s then (Inr [], s)
     else
       (let (screenSize, s1) = getSystemScreenSize e s
        in case launchError e of
             Some msg \<Rightarrow> (Inl msg, s1)
           | None \<Rightarrow> (Inr [Launch], s1\<lparr>browser := True\<rparr>)))"

text \<open>
  \<open>captureScreenshot\<close>. Everything is inside one \<open>try\<close> whose \<open>catch\<close> returns a failed
  result; the page is closed in \<open>finally\<close> once it exists. The workspace set-up block
  between the authentication and the content detection sits wholly inside its own
  \<open>try\<close>/\<open>catch\<close> and is one event here. Page operations outside the inner \<open>try\<close> blocks,
  other than the launch, the navigation and the final screenshot, are taken to succeed.
\<close>

definition captureScreenshot ::
  "capture_env \<Rightarrow> string \<Rightarrow> int \<Rightarrow> string \<Rightarrow> string \<Rightarrow> service \<Rightarrow> (screenshot_result \<times> event list) \<times> service" where
  "captureScreenshot e url userId subject captureEvt s0 =
    (case initBrowser e s0 of
       (Inl msg, s1) \<Rightarrow> ((failedResult msg url userId subject Browser, []), s1)
     | (Inr evs0, s1) \<Rightarrow>
         (let (screenSize, s2) = getSystemScreenSize e s1
          in case gotoError e of
               Some msg \<Rightarrow>
                 ((failedResult msg url userId subject Browser, evs0 @ [Goto url, ClosePage]), s2)
             | None \<Rightarrow>
                 (let evs = evs0 @ [Goto url] @ handleTrust e @ [Wait 3000] @ handleLogin e
                              @ [WorkspaceSetup] @ detectContent e;
                      name = ''user-'' @ show_int userId @ ''-'' @ subject @ ''-'' @ captureEvt
                               @ ''-'' @ fileStamp (stampForFile e) @ ''.jpg'';
                      path = screenshotsDir e @ ''/'' @ name
                  in case screenshotError e of
                       Some msg \<Rightarrow>
                         ((failedResult msg url userId subject Browser,
                           evs @ [Screenshot path, ClosePage]), s2)
                     | None \<Rightarrow>
                         ((\<lparr>success = True, filePath = Some path, filename = Some name,
                            resultTimestamp = Some (stampForResult e),
                            resultContainerUrl = Some url, resultUserId = userId,
                            resultSubject = subject, errorText = None,
                            imageSize = Some (roundKB (length (capturedBytes e))),
                            screenInfo = Some screenSize, captureType = Browser\<rparr>,
                           evs @ [Screenshot path, ClosePage]),
                          s2\<lparr>files := AList.update path (capturedBytes e) (files s2)\<rparr>))))"



section \<open>Notions used in the statements\<close>

text \<open>Which events belong to the trust handling and which to the authentication.\<close>

definition isTrustEvent :: "event \<Rightarrow> bool" where
  "isTrustEvent ev = (case ev of ClickTrust _ \<Rightarrow> True | DebugSnapshot \<Rightarrow> True
                      | WaitForButton \<Rightarrow> True | ListButtons \<Rightarrow> True | _ \<Rightarrow> False)"

definition isAuthEvent :: "event \<Rightarrow> bool" where
  "isAuthEvent ev = (case ev of ProbePassword \<Rightarrow> True | TypePassword _ \<Rightarrow> True
                     | PressEnter \<Rightarrow> True | WaitForShell \<Rightarrow> True | _ \<Rightarrow> False)"


text \<open>\<open>runsBefore P Q evs\<close>: no event of kind \<open>P\<close> comes after an event of kind \<open>Q\<close>,
  that is, everything of kind \<open>P\<close> is over before anything of kind \<open>Q\<close> starts.\<close>

fun runsBefore :: "(event \<Rightarrow> bool) \<Rightarrow> (event \<Rightarrow> bool) \<Rightarrow> event list \<Rightarrow> bool" where
  "runsBefore P Q [] = True"
| "runsBefore P Q (ev # evs) = ((if Q ev then \<not> list_ex P evs else True) \<and> runsBefore P Q evs)"

text \<open>A reading of the capture page that ends the polling neither way: no error and no
  frame of more than 1000 characters.\<close>

definition unresolved :: "poll_result \<Rightarrow> bool" where
  "unresolved r =
    (\<not> truthy (captureError r) \<and> \<not> (truthy (imageData r) \<and> length (strOf (imageData r)) > 1000))"

text \<open>The rounds of a desktop capture that never resolves: three readings three seconds
  apart, then five readings each followed by a click, one second and three seconds.\<close>

definition timedOutRounds :: "event list" where
  "timedOutRounds =
    [Poll, Wait 3000, Poll, Wait 3000, Poll, Wait 3000,
     Poll, ClickButton, Wait 1000, Wait 3000, Poll, ClickButton, Wait 1000, Wait 3000,
     Poll, ClickButton, Wait 1000, Wait 3000, Poll, ClickButton, Wait 1000, Wait 3000,
     Poll, ClickButton, Wait 1000, Wait 3000]"






text \<open>Every user's entry is the only one for that user and holds at most one container.\<close>

definition oneEach :: "world \<Rightarrow> bool" where
  "oneEach w =
    (distinct (map fst (activeContainers w)) \<and> (\<forall>(u, cs) \<in> set (activeContainers w). length cs \<le> 1))"

section \<open>Example runs\<close>



definition exampleWorld :: world where
  "exampleWorld =
    \<lparr>activeContainers = [(7, [''c1''])],
     containers = [(''c1'', \<lparr>cName = ''codespace_7_1000'', cImage = ''codespace-python'',
                            cHostPort = ''49152'', cRunning = True\<rparr>)],
     images = [''codespace-javascript'', ''codespace-java'', ''codespace-cpp'', ''codespace-python''],
     templateWorkspace = True\<rparr>"

definition exampleEnv :: env where
  "exampleEnv = \<lparr>freePort = 49153, now = 2000, newId = ''c2'', editorReachable = False\<rparr>"






text \<open>
  A capture on a fresh service. The editor page has a Submit button and a trust button, a
  password input, and shows only the welcome screen; the desktop capture page never shows
  a frame or an error.
\<close>

definition exampleCaptureEnv :: capture_env where
  "exampleCaptureEnv =
    \<lparr>detectedScreen = Some (1920, 1080), launchError = None, gotoError = None,
     screenshotError = None, stampForFile = ''2025-01-01T00:00:00.000Z'',
     stampForResult = ''2025-01-01T00:00:01.000Z'', cwd = ''/app'',
     base64_decode = (\<lambda>s. map of_char s), base64_encode = (\<lambda>bs. map char_of bs),
     objectIdGen = 1, dateNow = 1000,
     polls = (\<lambda>n. \<lparr>imageData = None, captureError = None\<rparr>),
     buttons = [\<lparr>textContent = ''Submit'', firstText = ''Submit'', ariaLabel = None,
                 shadowButtons = []\<rparr>,
                \<lparr>textContent = ''Yes, I trust the authors'', firstText = ''Yes, I trust the authors'',
                 ariaLabel = None, shadowButtons = []\<rparr>],
     passwordInput = True, shellAppears = True, editorAppears = True,
     dom = \<lparr>viewLines = [''Welcome''], tabLabels = [''Get Started''], terminals = [],
            hasWorkbench = False, hasExplorer = False, hasActivitybar = False\<rparr>,
     capturedBytes = [255, 216, 255]\<rparr>"

definition emptyService :: service where
  "emptyService = \<lparr>systemScreenSize = None, browser = False, files = [], screenshots = []\<rparr>"

text \<open>An editor page that shows code, and one whose code mentions a placeholder word.\<close>

definition codeDom :: editor_dom where
  "codeDom =
    \<lparr>viewLines = [''function isPrime(num) { return num > 1; }''], tabLabels = [],
     terminals = [], hasWorkbench = False, hasExplorer = False, hasActivitybar = False\<rparr>"

definition mixedDom :: editor_dom where
  "mixedDom =
    \<lparr>viewLines = [''// Welcome function isPrime(num) {''], tabLabels = [],
     terminals = [], hasWorkbench = False, hasExplorer = False, hasActivitybar = False\<rparr>"

text \<open>A screenshot whose image is bare base64, without the data-URI prefix.\<close>

definition exampleShot :: screenshot_data where
  "exampleShot =
    \<lparr>shotUserId = 7, shotImage = ImageString ''/9j/4AAQSkZJRgABAQ'',
     shotMetadata = LegacyMeta 1\<rparr>"

section \<open>Properties of the container service\<close>

subsection \<open>Stopping containers\<close>

lemma isRunning_container_stop_same: "\<not> isRunning (snd (container_stop cid w)) cid"
  by (simp add: container_stop_def isRunning_def AList.delete_conv' split: option.splits)

lemma isRunning_container_stop_mono:
  "isRunning (snd (container_stop cid w)) c \<Longrightarrow> isRunning w c"
  by (auto simp: container_stop_def isRunning_def AList.delete_conv' split: option.splits if_splits)

lemma activeContainers_container_stop [simp]:
  "activeContainers (snd (container_stop cid w)) = activeContainers w"
  by (simp add: container_stop_def split: option.splits)

lemma stopEach_Cons: "stopEach (cid # rest) w = stopEach rest (snd (container_stop cid w))"
  by (cases "container_stop cid w") (auto split: sum.splits)

lemma isRunning_stopEach_mono: "isRunning (stopEach cs w) c \<Longrightarrow> isRunning w c"
proof (induction cs arbitrary: w)
  case Nil
  then show ?case by simp
next
  case (Cons cid rest)
  from Cons.prems have "isRunning (stopEach rest (snd (container_stop cid w))) c"
    by (simp only: stopEach_Cons)
  then have "isRunning (snd (container_stop cid w)) c" by (rule Cons.IH)
  then show ?case by (rule isRunning_container_stop_mono)
qed

lemma isRunning_stopEach_member: "cid \<in> set cs \<Longrightarrow> \<not> isRunning (stopEach cs w) cid"
proof (induction cs arbitrary: w)
  case Nil
  then show ?case by simp
next
  case (Cons c rest)
  show ?case
  proof (cases "cid = c")
    case True
    have "\<not> isRunning (snd (container_stop c w)) c" by (rule isRunning_container_stop_same)
    then have "\<not> isRunning (stopEach rest (snd (container_stop c w))) c"
      using isRunning_stopEach_mono by blast
    then show ?thesis unfolding True stopEach_Cons .
  next
    case False
    with Cons.prems have "cid \<in> set rest" by simp
    then have "\<not> isRunning (stopEach rest (snd (container_stop c w))) cid" by (rule Cons.IH)
    then show ?thesis unfolding stopEach_Cons .
  qed
qed

lemma activeContainers_stopEach [simp]: "activeContainers (stopEach cs w) = activeContainers w"
  by (induction cs arbitrary: w) (simp_all only: stopEach.simps(1) stopEach_Cons activeContainers_container_stop)

lemma isRunning_activeContainers_update [simp]:
  "isRunning (w\<lparr>activeContainers := a\<rparr>) c = isRunning w c"
  by (simp add: isRunning_def)

lemma tracked_cleanup [simp]: "tracked (cleanupUserContainers userId w) userId = []"
  by (simp add: cleanupUserContainers_def Let_def tracked_def AList.delete_conv')


lemma tracked_cleanup_other:
  "u \<noteq> userId \<Longrightarrow> tracked (cleanupUserContainers userId w) u = tracked w u"
  by (simp add: cleanupUserContainers_def Let_def tracked_def)

lemma isRunning_cleanup_mono: "isRunning (cleanupUserContainers userId w) c \<Longrightarrow> isRunning w c"
  by (simp add: cleanupUserContainers_def Let_def isRunning_stopEach_mono)

lemma isRunning_cleanup_tracked:
  "cid \<in> set (tracked w userId) \<Longrightarrow> \<not> isRunning (cleanupUserContainers userId w) cid"
  by (simp add: cleanupUserContainers_def Let_def isRunning_stopEach_member)

text \<open>
  C8. \<open>stopContainer\<close> never raises, and a second call right after a first one for the same id
  completes normally and leaves the state as the first call left it.
\<close>

theorem stopContainer_idempotent:
  "fst (stopContainer containerId w) = Inr () \<and>
   stopContainer containerId (snd (stopContainer containerId w)) =
     (Inr (), snd (stopContainer containerId w))"
  by (auto simp: stopContainer_def container_stop_def AList.delete_conv' split: option.splits)

subsection \<open>Decimal rendering is injective\<close>










subsection \<open>Unsupported languages\<close>

lemma subjectToImage_unsupported:
  "subject \<notin> set supportedLanguages \<Longrightarrow>
   subjectToImage subject = None \<or> subjectToImage subject = Some (InheritedMember subject)"
  by (simp add: subjectToImage_def supportedLanguages_def)

lemma subjectToImage_None:
  "subject \<notin> set supportedLanguages \<Longrightarrow> subject \<notin> set objectPrototypeKeys \<Longrightarrow>
   subjectToImage subject = None"
  by (simp add: subjectToImage_def supportedLanguages_def)

lemma spinUp_undefined_image:
  "subjectToImage subject = None \<Longrightarrow>
   spinUpContainer e subject userId w = (Inl (NoDockerImage subject), cleanupUserContainers userId w)"
  by (simp add: spinUpContainer_def Let_def)

lemma spinUp_inherited_image:
  "subjectToImage subject = Some (InheritedMember m) \<Longrightarrow>
   spinUpContainer e subject userId w =
     (Inl (DockerError 400), (cleanupUserContainers userId w)\<lparr>templateWorkspace := True\<rparr>)"
  by (simp add: spinUpContainer_def Let_def docker_createContainer_def)

lemma isRunning_templateWorkspace [simp]:
  "isRunning (w\<lparr>templateWorkspace := b\<rparr>) c = isRunning w c"
  by (simp add: isRunning_def)

lemma tracked_templateWorkspace [simp]:
  "tracked (w\<lparr>templateWorkspace := b\<rparr>) u = tracked w u"
  by (simp add: tracked_def)

lemma spinUp_unsupported_state:
  assumes "subject \<notin> set supportedLanguages"
  shows "\<exists>err b. spinUpContainer e subject userId w =
           (Inl err, (cleanupUserContainers userId w)\<lparr>templateWorkspace := b\<rparr>)"
proof -
  have "subjectToImage subject = None \<or> subjectToImage subject = Some (InheritedMember subject)"
    using assms by (rule subjectToImage_unsupported)
  then show ?thesis
  proof
    assume "subjectToImage subject = None"
    then have "spinUpContainer e subject userId w =
        (Inl (NoDockerImage subject),
         (cleanupUserContainers userId w)\<lparr>templateWorkspace := templateWorkspace (cleanupUserContainers userId w)\<rparr>)"
      by (simp add: spinUp_undefined_image)
    then show ?thesis by (intro exI)
  next
    assume "subjectToImage subject = Some (InheritedMember subject)"
    then have "spinUpContainer e subject userId w =
        (Inl (DockerError 400), (cleanupUserContainers userId w)\<lparr>templateWorkspace := True\<rparr>)"
      by (rule spinUp_inherited_image)
    then show ?thesis by (intro exI)
  qed
qed

text \<open>
  C9. Provisioning destroys before it validates. For every language outside the supported
  set the call fails, and the state it leaves is the one \<open>cleanupUserContainers\<close> made
  before the language was looked at: the user's entry is gone and every container that was
  tracked for the user no longer runs. When the language is no property name of
  \<open>Object.prototype\<close> either, the failure is the language check itself.
\<close>

theorem spinUp_unsupported_destroys_first:
  assumes "subject \<notin> set supportedLanguages"
  shows "(\<exists>err. fst (spinUpContainer e subject userId w) = Inl err) \<and>
         tracked (snd (spinUpContainer e subject userId w)) userId = [] \<and>
         (\<forall>cid \<in> set (tracked w userId). \<not> isRunning (snd (spinUpContainer e subject userId w)) cid) \<and>
         (subject \<notin> set objectPrototypeKeys \<longrightarrow>
            spinUpContainer e subject userId w =
              (Inl (NoDockerImage subject), cleanupUserContainers userId w))"
proof -
  obtain err b where eq: "spinUpContainer e subject userId w =
      (Inl err, (cleanupUserContainers userId w)\<lparr>templateWorkspace := b\<rparr>)"
    using spinUp_unsupported_state [OF assms] by blast
  have 1: "\<exists>err. fst (spinUpContainer e subject userId w) = Inl err"
    unfolding eq by simp
  have 2: "tracked (snd (spinUpContainer e subject userId w)) userId = []"
    unfolding eq by simp
  have 3: "\<forall>cid \<in> set (tracked w userId). \<not> isRunning (snd (spinUpContainer e subject userId w)) cid"
    unfolding eq by (simp add: isRunning_cleanup_tracked)
  have 4: "subject \<notin> set objectPrototypeKeys \<longrightarrow>
            spinUpContainer e subject userId w =
              (Inl (NoDockerImage subject), cleanupUserContainers userId w)"
    using assms by (simp add: subjectToImage_None spinUp_undefined_image)
  from 1 2 3 4 show ?thesis by (intro conjI)
qed

text \<open>
  A user with one running workspace asks for Ruby: the call fails and the workspace is gone.
\<close>

theorem spinUp_unsupported_destroys_first_witness:
  "''Ruby'' \<notin> set supportedLanguages \<and>
   isRunning exampleWorld ''c1'' \<and> tracked exampleWorld 7 = [''c1''] \<and>
   fst (spinUpContainer exampleEnv ''Ruby'' 7 exampleWorld) = Inl (NoDockerImage ''Ruby'') \<and>
   tracked (snd (spinUpContainer exampleEnv ''Ruby'' 7 exampleWorld)) 7 = [] \<and>
   \<not> isRunning (snd (spinUpContainer exampleEnv ''Ruby'' 7 exampleWorld)) ''c1''"
proof -
  have h: "''Ruby'' \<notin> set supportedLanguages" by (simp add: supportedLanguages_def)
  have k: "''Ruby'' \<notin> set objectPrototypeKeys" by (simp add: objectPrototypeKeys_def)
  have t: "tracked exampleWorld 7 = [''c1'']" by (simp add: tracked_def exampleWorld_def)
  have r: "isRunning exampleWorld ''c1''" by (simp add: isRunning_def exampleWorld_def)
  note main = spinUp_unsupported_destroys_first [OF h, of exampleEnv 7 exampleWorld]
  from main k have eq: "spinUpContainer exampleEnv ''Ruby'' 7 exampleWorld =
      (Inl (NoDockerImage ''Ruby''), cleanupUserContainers 7 exampleWorld)" by blast
  from main t have nr: "\<not> isRunning (snd (spinUpContainer exampleEnv ''Ruby'' 7 exampleWorld)) ''c1''"
    by simp
  from main have tr: "tracked (snd (spinUpContainer exampleEnv ''Ruby'' 7 exampleWorld)) 7 = []"
    by blast
  from eq have f: "fst (spinUpContainer exampleEnv ''Ruby'' 7 exampleWorld) = Inl (NoDockerImage ''Ruby'')"
    by simp
  show ?thesis using h r t f tr nr by blast
qed

lemma errorMessage_400: "errorMessage (DockerError 400) = ''(HTTP code 400) ''"
  by (simp add: errorMessage_def show_nat.simps digit_char_def)

text \<open>
  C5. The language \<open>constructor\<close> is outside the supported set, yet the lookup
  \<open>subjectToImage["constructor"]\<close> finds the inherited \<open>Object\<close> function, the
  guard \<open>!image\<close> does not fire, the daemon rejects the creation, and the route
  answers 500 with the daemon's message instead of 400 "Unsupported language".
\<close>

theorem spin_up_route_constructor:
  "fst (spin_up_route e (Some 7) ''constructor'' w) = Status 500 ''(HTTP code 400) ''"
proof -
  have "subjectToImage ''constructor'' = Some (InheritedMember ''constructor'')"
    by (simp add: subjectToImage_def objectPrototypeKeys_def)
  then have "spinUpContainer e ''constructor'' 7 w =
     (Inl (DockerError 400), (cleanupUserContainers 7 w)\<lparr>templateWorkspace := True\<rparr>)"
    by (rule spinUp_inherited_image)
  then show ?thesis
    by (simp add: spin_up_route_def errorMessage_400)
qed

text \<open>
  For every other unsupported language the route does answer 400, after the clean-up.
\<close>

lemma spin_up_route_undefined_image:
  assumes "subject \<notin> set supportedLanguages" "subject \<notin> set objectPrototypeKeys" "uid \<noteq> 0"
  shows "spin_up_route e (Some uid) subject w =
           (Status 400 ''Unsupported language'', cleanupUserContainers uid w)"
proof -
  have "spinUpContainer e subject uid w = (Inl (NoDockerImage subject), cleanupUserContainers uid w)"
    using assms by (simp add: subjectToImage_None spinUp_undefined_image)
  then show ?thesis using assms(3)
    by (simp add: spin_up_route_def errorMessage_def)
qed

subsection \<open>Successful calls\<close>





subsection \<open>At most one tracked container per user\<close>



lemma oneEach_other_fields [simp]:
  "oneEach (w\<lparr>containers := c\<rparr>) = oneEach w"
  "oneEach (w\<lparr>templateWorkspace := b\<rparr>) = oneEach w"
  by (simp_all add: oneEach_def)


















subsection \<open>Live instances after a successful call\<close>
















subsection \<open>Provisioning returns without probing the editor\<close>


lemma images_container_stop [simp]: "images (snd (container_stop cid w)) = images w"
  by (simp add: container_stop_def split: option.splits)


lemma images_stopEach [simp]: "images (stopEach cs w) = images w"
  by (induction cs arbitrary: w) (simp_all only: stopEach.simps(1) stopEach_Cons images_container_stop)


lemma images_cleanup [simp]: "images (cleanupUserContainers userId w) = images w"
  by (simp add: cleanupUserContainers_def Let_def)



lemma supported_image:
  "subject \<in> set supportedLanguages \<Longrightarrow> \<exists>i. subjectToImage subject = Some (ImageName i)"
  by (auto simp: supportedLanguages_def subjectToImage_def)





section \<open>Properties of the screenshot collection\<close>

lemma saveScreenshot_invalid:
  assumes "shotImage d = ImageMissing \<or> shotImage d = ImageNotString \<or>
           (\<exists>s. shotImage d = ImageString s \<and> (s = [] \<or> \<not> startsWith s ''data:image/''))"
  shows "saveScreenshot oid clock d coll =
           (Inl (if (\<exists>s. shotImage d = ImageString s \<and> s \<noteq> []) then NoDataUriPrefix
                 else ImageMissingOrNotString), coll)"
  using assms by (auto simp: saveScreenshot_def split: js_image.splits)

text \<open>
  C3. An artifact whose image is missing, is no string, is empty, or does not start with
  \<open>data:image/\<close> is rejected with an error, and the collection is what it was: no
  identifier fetches anything it did not fetch before.
\<close>

theorem saveScreenshot_rejects_invalid:
  assumes "shotImage d = ImageMissing \<or> shotImage d = ImageNotString \<or>
           (\<exists>s. shotImage d = ImageString s \<and> (s = [] \<or> \<not> startsWith s ''data:image/''))"
  shows "(\<exists>err. fst (saveScreenshot oid clock d coll) = Inl err) \<and>
         snd (saveScreenshot oid clock d coll) = coll \<and>
         (\<forall>i. findOne i (snd (saveScreenshot oid clock d coll)) = findOne i coll)"
  by (simp add: saveScreenshot_invalid [OF assms])

text \<open>
  A bare base64 payload without the data-URI prefix is rejected and nothing is stored.
\<close>

theorem saveScreenshot_rejects_invalid_witness:
  "shotImage exampleShot = ImageString ''/9j/4AAQSkZJRgABAQ'' \<and>
   \<not> startsWith ''/9j/4AAQSkZJRgABAQ'' ''data:image/'' \<and>
   fst (saveScreenshot 1 1000 exampleShot []) = Inl NoDataUriPrefix \<and>
   snd (saveScreenshot 1 1000 exampleShot []) = [] \<and>
   findOne 1 (snd (saveScreenshot 1 1000 exampleShot [])) = None"
proof -
  have i: "shotImage exampleShot = ImageString ''/9j/4AAQSkZJRgABAQ''"
    by (simp add: exampleShot_def)
  have p: "\<not> startsWith ''/9j/4AAQSkZJRgABAQ'' ''data:image/''"
    by (simp add: startsWith_def)
  have h: "shotImage exampleShot = ImageMissing \<or> shotImage exampleShot = ImageNotString \<or>
           (\<exists>s. shotImage exampleShot = ImageString s \<and> (s = [] \<or> \<not> startsWith s ''data:image/''))"
    using i p by simp
  have f: "fst (saveScreenshot 1 1000 exampleShot []) = Inl NoDataUriPrefix"
    by (simp add: saveScreenshot_def i p)
  note main = saveScreenshot_rejects_invalid [OF h, of 1 1000 "[]"]
  from main have s: "snd (saveScreenshot 1 1000 exampleShot []) = []" by blast
  from main have "findOne 1 (snd (saveScreenshot 1 1000 exampleShot [])) = findOne 1 []" by blast
  then have n: "findOne 1 (snd (saveScreenshot 1 1000 exampleShot [])) = None"
    by (simp add: findOne_def)
  from i p f s n show ?thesis by (intro conjI)
qed

lemma find_snoc_None: "find P xs = None \<Longrightarrow> find P (xs @ [y]) = (if P y then Some y else None)"
  by (induction xs) (auto split: if_splits)

text \<open>A valid payload is stored and can be fetched under its identifier.\<close>

lemma saveScreenshot_valid:
  assumes "shotImage d = ImageString s" "startsWith s ''data:image/''" "oid \<notin> set (map objectId coll)"
  shows "\<exists>doc. saveScreenshot oid clock d coll = (Inr doc, coll @ [doc]) \<and> objectId doc = oid
           \<and> shotImage doc = ImageString s \<and> findOne oid (coll @ [doc]) = Some doc"
proof -
  have ne: "s \<noteq> []" using assms(2) by (auto simp: startsWith_def)
  let ?doc = "screenshot_data.extend d (screenshot_log.fields oid clock)"
  have o: "objectId ?doc = oid"
    by (simp add: screenshot_data.extend_def screenshot_log.fields_def screenshot_data.defs screenshot_log.defs)
  have im: "shotImage ?doc = ImageString s" using assms(1)
    by (simp add: screenshot_data.extend_def screenshot_log.fields_def screenshot_data.defs screenshot_log.defs)
  have nf: "find (\<lambda>d. objectId d = oid) coll = None"
    using assms(3) by (auto simp: find_None_iff)
  have f: "findOne oid (coll @ [?doc]) = Some ?doc"
    by (simp add: findOne_def find_snoc_None [OF nf] o)
  have "saveScreenshot oid clock d coll = (Inr ?doc, coll @ [?doc])"
    using assms ne f o by (simp add: saveScreenshot_def insertOne_def Let_def)
  with o im f show ?thesis by blast
qed

section \<open>Properties of the desktop capture\<close>

lemma pollLoop_step:
  assumes "unresolved (page (8 - attempts))" "attempts \<noteq> 0"
  shows "pollLoop page attempts =
           (fst (pollLoop page (attempts - 1)),
            [Poll] @ (if attempts \<le> 5 then [ClickButton, Wait 1000] else []) @ [Wait 3000]
              @ snd (pollLoop page (attempts - 1)))"
  using assms
  by (subst pollLoop.simps) (simp add: unresolved_def Let_def split: prod.splits)

lemma pollLoop_zero: "pollLoop page 0 = (Inl timeoutMessage, [])"
  by (subst pollLoop.simps) simp

lemma pollLoop_never_resolves:
  assumes "\<forall>i<8. unresolved (page i)"
  shows "pollLoop page 8 = (Inl timeoutMessage, timedOutRounds)"
proof -
  have u: "unresolved (page 0)" "unresolved (page 1)" "unresolved (page 2)" "unresolved (page 3)"
    "unresolved (page 4)" "unresolved (page 5)" "unresolved (page 6)" "unresolved (page 7)"
    using assms by simp_all
  have 1: "pollLoop page (Suc 0) = (Inl timeoutMessage, [Poll, ClickButton, Wait 1000, Wait 3000])"
    using pollLoop_step [of page "Suc 0"] u(8) by (simp add: pollLoop_zero)
  have 2: "pollLoop page 2 = (Inl timeoutMessage,
      [Poll, ClickButton, Wait 1000, Wait 3000] @ snd (pollLoop page (Suc 0)))"
    using pollLoop_step [of page 2] u(7) by (simp add: 1)
  have 3: "pollLoop page 3 = (Inl timeoutMessage,
      [Poll, ClickButton, Wait 1000, Wait 3000] @ snd (pollLoop page 2))"
    using pollLoop_step [of page 3] u(6) by (simp add: 2)
  have 4: "pollLoop page 4 = (Inl timeoutMessage,
      [Poll, ClickButton, Wait 1000, Wait 3000] @ snd (pollLoop page 3))"
    using pollLoop_step [of page 4] u(5) by (simp add: 3)
  have 5: "pollLoop page 5 = (Inl timeoutMessage,
      [Poll, ClickButton, Wait 1000, Wait 3000] @ snd (pollLoop page 4))"
    using pollLoop_step [of page 5] u(4) by (simp add: 4)
  have 6: "pollLoop page 6 = (Inl timeoutMessage, [Poll, Wait 3000] @ snd (pollLoop page 5))"
    using pollLoop_step [of page 6] u(3) by (simp add: 5)
  have 7: "pollLoop page 7 = (Inl timeoutMessage, [Poll, Wait 3000] @ snd (pollLoop page 6))"
    using pollLoop_step [of page 7] u(2) by (simp add: 6)
  have 8: "pollLoop page 8 = (Inl timeoutMessage, [Poll, Wait 3000] @ snd (pollLoop page 7))"
    using pollLoop_step [of page 8] u(1) by (simp add: 7)
  show ?thesis
    unfolding 8 7 6 5 4 3 2 1 by (simp add: timedOutRounds_def)
qed

lemma saveResult_failed: "\<not> success result \<Longrightarrow> saveResult e userId captureEvt url codespace result s = (result, s)"
  by (simp add: saveResult_def split: option.splits)

lemma success_failedResult [simp]: "\<not> success (failedResult msg url userId subject ct)"
  by (simp add: failedResult_def)

lemma getSystemScreenSize_keeps [simp]:
  "screenshots (snd (getSystemScreenSize e s)) = screenshots s"
  "files (snd (getSystemScreenSize e s)) = files s"
  by (simp_all add: getSystemScreenSize_def split: option.splits)

text \<open>
  C6. When the browser launches and none of the eight readings of the capture page shows an
  error or a usable frame, the desktop capture polls eight times, three seconds apart,
  clicks the button again on the last five rounds, and then fails with the time-out
  message; \<open>captureDesktopAndSaveToMongoDB\<close> returns that failed result and the
  collection is unchanged.
\<close>

theorem desktop_capture_times_out:
  assumes "launchError e = None" and "\<forall>i<8. unresolved (polls e i)"
  shows "fst (captureDesktopAndSaveToMongoDB e userId subject captureEvt s) =
           (failedResult timeoutMessage ''desktop-capture'' userId subject Desktop,
            [Launch, Wait 3000] @ timedOutRounds @ [ClosePage]) \<and>
         \<not> success (fst (fst (captureDesktopAndSaveToMongoDB e userId subject captureEvt s))) \<and>
         errorText (fst (fst (captureDesktopAndSaveToMongoDB e userId subject captureEvt s))) =
           Some timeoutMessage \<and>
         length (filter (\<lambda>ev. ev = Poll) timedOutRounds) = 8 \<and>
         length (filter (\<lambda>ev. ev = ClickButton) timedOutRounds) = 5 \<and>
         screenshots (snd (captureDesktopAndSaveToMongoDB e userId subject captureEvt s)) =
           screenshots s"
proof -
  have p: "pollLoop (polls e) 8 = (Inl timeoutMessage, timedOutRounds)"
    using assms(2) by (rule pollLoop_never_resolves)
  have c: "captureDesktopScreen e userId subject captureEvt s =
      ((failedResult timeoutMessage ''desktop-capture'' userId subject Desktop,
        [Launch, Wait 3000] @ timedOutRounds @ [ClosePage]), snd (getSystemScreenSize e s))"
    using assms(1) p by (simp add: captureDesktopScreen_def split: prod.splits)
  have d: "captureDesktopAndSaveToMongoDB e userId subject captureEvt s =
      ((failedResult timeoutMessage ''desktop-capture'' userId subject Desktop,
        [Launch, Wait 3000] @ timedOutRounds @ [ClosePage]), snd (getSystemScreenSize e s))"
    by (simp add: captureDesktopAndSaveToMongoDB_def c saveResult_failed)
  have n: "length (filter (\<lambda>ev. ev = Poll) timedOutRounds) = 8"
    "length (filter (\<lambda>ev. ev = ClickButton) timedOutRounds) = 5"
    by (simp_all add: timedOutRounds_def)
  show ?thesis unfolding d using n by (simp add: failedResult_def)
qed

text \<open>
  A capture page that never shows anything.
\<close>

theorem desktop_capture_times_out_witness:
  "launchError exampleCaptureEnv = None \<and> unresolved (polls exampleCaptureEnv 0) \<and>
   \<not> success (fst (fst (captureDesktopAndSaveToMongoDB exampleCaptureEnv 7 ''desktop'' ''manual'' emptyService))) \<and>
   errorText (fst (fst (captureDesktopAndSaveToMongoDB exampleCaptureEnv 7 ''desktop'' ''manual'' emptyService))) =
     Some ''Desktop capture timed out - could not capture screen data'' \<and>
   screenshots (snd (captureDesktopAndSaveToMongoDB exampleCaptureEnv 7 ''desktop'' ''manual'' emptyService)) = []"
proof -
  have l: "launchError exampleCaptureEnv = None" by (simp add: exampleCaptureEnv_def)
  have u: "\<forall>i<8. unresolved (polls exampleCaptureEnv i)"
    by (simp add: exampleCaptureEnv_def unresolved_def truthy_def)
  then have u0: "unresolved (polls exampleCaptureEnv 0)" by simp
  note main = desktop_capture_times_out [OF l u, of 7 "''desktop''" "''manual''" emptyService]
  from main have a: "\<not> success (fst (fst (captureDesktopAndSaveToMongoDB exampleCaptureEnv 7 ''desktop'' ''manual'' emptyService)))"
    by blast
  from main have "errorText (fst (fst (captureDesktopAndSaveToMongoDB exampleCaptureEnv 7 ''desktop'' ''manual'' emptyService))) =
     Some timeoutMessage" by blast
  then have b: "errorText (fst (fst (captureDesktopAndSaveToMongoDB exampleCaptureEnv 7 ''desktop'' ''manual'' emptyService))) =
     Some ''Desktop capture timed out - could not capture screen data''"
    by (simp add: timeoutMessage_def)
  from main have "screenshots (snd (captureDesktopAndSaveToMongoDB exampleCaptureEnv 7 ''desktop'' ''manual'' emptyService)) =
     screenshots emptyService" by blast
  then have c: "screenshots (snd (captureDesktopAndSaveToMongoDB exampleCaptureEnv 7 ''desktop'' ''manual'' emptyService)) = []"
    by (simp add: emptyService_def)
  from l u0 a b c show ?thesis by (intro conjI)
qed

section \<open>Properties of the editor capture\<close>

subsection \<open>Trimming and inclusion\<close>

lemma dropWhile_keeps_sublist:
  assumes "sublist x t" "x \<noteq> []" "\<not> P (hd x)"
  shows "sublist x (dropWhile P t)"
proof -
  from assms(1) obtain ps ss where t: "t = ps @ x @ ss" by (auto simp: sublist_def)
  have "sublist x (dropWhile P (ps @ x @ ss))"
  proof (induction ps)
    case Nil
    from assms(2,3) have "dropWhile P (x @ ss) = x @ ss" by (cases x) auto
    then show ?case by simp
  next
    case (Cons p ps)
    show ?case
    proof (cases "P p")
      case True
      then show ?thesis using Cons.IH by simp
    next
      case False
      then have "dropWhile P ((p # ps) @ x @ ss) = (p # ps) @ x @ ss" by simp
      then show ?thesis by (metis sublist_appendI)
    qed
  qed
  then show ?thesis by (simp add: t)
qed

lemma trim_keeps_includes:
  assumes "str_includes t x" "x \<noteq> []" "\<not> is_space (hd x)" "\<not> is_space (last x)"
  shows "str_includes (trim t) x"
proof -
  have 1: "sublist x (dropWhile is_space t)"
    using assms(1,2,3) by (simp add: str_includes_def dropWhile_keeps_sublist)
  then have "sublist (rev x) (rev (dropWhile is_space t))" by simp
  moreover have "rev x \<noteq> []" "\<not> is_space (hd (rev x))"
    using assms(2,4) by (simp_all add: hd_rev)
  ultimately have "sublist (rev x) (dropWhile is_space (rev (dropWhile is_space t)))"
    by (rule dropWhile_keeps_sublist)
  then have "sublist x (rev (dropWhile is_space (rev (dropWhile is_space t))))"
    by (simp add: sublist_rev_left)
  then show ?thesis by (simp add: str_includes_def trim_def)
qed

lemma sublist_trim: "sublist (trim t) t"
proof -
  have "sublist (dropWhile is_space (rev (dropWhile is_space t))) (rev (dropWhile is_space t))"
    by simp
  then have "sublist (trim t) (dropWhile is_space t)"
    by (simp add: trim_def sublist_rev_left)
  moreover have "sublist (dropWhile is_space t) t" by simp
  ultimately show ?thesis using sublist_order.order.trans by blast
qed

lemma includes_trim_imp: "str_includes (trim t) x \<Longrightarrow> str_includes t x"
  unfolding str_includes_def using sublist_trim sublist_order.order.trans by blast

lemma includes_length: "str_includes t x \<Longrightarrow> length x \<le> length t"
  by (simp add: str_includes_def sublist_length_le)

lemma includes_trans: "str_includes t x \<Longrightarrow> sublist y x \<Longrightarrow> str_includes t y"
  unfolding str_includes_def using sublist_order.order.trans by blast

lemma placeholderFree_trim: "placeholderFree t \<Longrightarrow> placeholderFree (trim t)"
  unfolding placeholderFree_def using includes_trim_imp by blast

subsection \<open>The content analysis\<close>

lemma isPrime_text_is_code:
  assumes "str_includes t ''function isPrime(num)''" "placeholderFree t"
  shows "monacoCode t"
proof -
  have inc: "str_includes (trim t) ''function isPrime(num)''"
    using assms(1) by (rule trim_keeps_includes) (simp_all add: is_space_def)
  have len: "length (trim t) > 10"
    using includes_length [OF inc] by simp
  have "sublist ''function'' ''function isPrime(num)''"
    by (simp add: sublist_def) (metis append_Nil)
  with inc have "str_includes (trim t) ''function''" by (rule includes_trans)
  then have code: "looksLikeCode (trim t)" by (simp add: looksLikeCode_def)
  have ne: "t \<noteq> []" using assms(1) by (auto simp: str_includes_def)
  from ne len code placeholderFree_trim [OF assms(2)] show ?thesis
    by (simp add: monacoCode_def)
qed

lemma find_Some_if_member: "x \<in> set xs \<Longrightarrow> P x \<Longrightarrow> \<exists>y. find P xs = Some y"
  by (induction xs) auto

lemma hasContent_found_code:
  assumes "t \<in> set (viewLines d)" "str_includes t ''function isPrime(num)''" "placeholderFree t"
  shows "found (hasContent d)" "contentType (hasContent d) = ''monaco-code''"
proof -
  obtain y where "find monacoCode (viewLines d) = Some y"
    using find_Some_if_member [of t "viewLines d" monacoCode] assms(1) isPrime_text_is_code [OF assms(2,3)]
    by blast
  then show "found (hasContent d)" "contentType (hasContent d) = ''monaco-code''"
    by (simp_all add: hasContent_def)
qed

lemma placeholder_text_is_no_code:
  assumes "str_includes t ''Welcome'' \<or> str_includes t ''Get Started''"
  shows "\<not> monacoCode t"
proof -
  from assms have "str_includes (trim t) ''Welcome'' \<or> str_includes (trim t) ''Get Started''"
  proof
    assume "str_includes t ''Welcome''"
    then have "str_includes (trim t) ''Welcome''"
      by (rule trim_keeps_includes) (simp_all add: is_space_def)
    then show ?thesis ..
  next
    assume "str_includes t ''Get Started''"
    then have "str_includes (trim t) ''Get Started''"
      by (rule trim_keeps_includes) (simp_all add: is_space_def)
    then show ?thesis ..
  qed
  then have "\<not> placeholderFree (trim t)" by (auto simp: placeholderFree_def)
  then show ?thesis by (simp add: monacoCode_def)
qed

lemma find_None_if_all: "\<forall>x\<in>set xs. \<not> P x \<Longrightarrow> find P xs = None"
  by (induction xs) auto

lemma hasContent_not_found:
  assumes "\<forall>t\<in>set (viewLines d). str_includes t ''Welcome'' \<or> str_includes t ''Get Started''"
      and "\<not> list_ex isCodeFileName (tabLabels d)"
      and "\<forall>t\<in>set (terminals d). length (trim t) \<le> 10"
      and "\<not> (hasWorkbench d \<and> (hasExplorer d \<or> hasActivitybar d))"
  shows "\<not> found (hasContent d)"
proof -
  have 1: "find monacoCode (viewLines d) = None"
    using assms(1) placeholder_text_is_no_code by (intro find_None_if_all) blast
  have 2: "find (\<lambda>t. t \<noteq> [] \<and> length (trim t) > 10) (terminals d) = None"
    using assms(3) by (intro find_None_if_all) auto
  show ?thesis using assms(2,4) by (simp add: hasContent_def 1 2)
qed

subsection \<open>The order of the driver's steps\<close>

lemma runsBefore_no_later: "\<not> list_ex Q xs \<Longrightarrow> runsBefore P Q xs"
  by (induction xs) auto

lemma runsBefore_no_earlier: "\<not> list_ex P xs \<Longrightarrow> runsBefore P Q xs"
  by (induction xs) auto

lemma runsBefore_append:
  "\<not> list_ex Q xs \<Longrightarrow> \<not> list_ex P ys \<Longrightarrow> runsBefore P Q (xs @ ys)"
  by (induction xs) (auto simp: runsBefore_no_earlier)

lemma no_auth_in_handleTrust: "\<not> list_ex isAuthEvent (handleTrust e)"
  by (simp add: handleTrust_def isAuthEvent_def split: option.splits)

lemma no_trust_in_handleLogin: "\<not> list_ex isTrustEvent (handleLogin e)"
  by (simp add: handleLogin_def isTrustEvent_def)

lemma no_trust_in_detectContent: "\<not> list_ex isTrustEvent (detectContent e)"
  by (simp add: detectContent_def isTrustEvent_def)

lemma initBrowser_events:
  "initBrowser e s = (Inr evs0, s1) \<Longrightarrow> evs0 = (if browser s then [] else [Launch])"
  by (auto simp: initBrowser_def split: if_splits prod.splits option.splits)

lemma initBrowser_ok:
  "browser s \<or> launchError e = None \<Longrightarrow>
   \<exists>s1. initBrowser e s = (Inr (if browser s then [] else [Launch]), s1)"
  by (auto simp: initBrowser_def split: if_splits prod.splits option.splits)

lemma captureScreenshot_events:
  assumes "browser s \<or> launchError e = None" and "gotoError e = None"
  shows "\<exists>path. snd (fst (captureScreenshot e url userId subject captureEvt s)) =
           (if browser s then [] else [Launch]) @ [Goto url] @ handleTrust e @ [Wait 3000]
             @ handleLogin e @ [WorkspaceSetup] @ detectContent e @ [Screenshot path, ClosePage]"
proof -
  obtain s1 where i: "initBrowser e s = (Inr (if browser s then [] else [Launch]), s1)"
    using initBrowser_ok [OF assms(1)] by blast
  show ?thesis
    using assms(2)
    by (cases "screenshotError e")
       (simp_all add: captureScreenshot_def i Let_def split: prod.splits)
qed

lemma captureScreenshot_success:
  assumes "browser s \<or> launchError e = None" and "gotoError e = None" and "screenshotError e = None"
  shows "success (fst (fst (captureScreenshot e url userId subject captureEvt s)))"
proof -
  obtain s1 where i: "initBrowser e s = (Inr (if browser s then [] else [Launch]), s1)"
    using initBrowser_ok [OF assms(1)] by blast
  show ?thesis
    using assms(2,3)
    by (simp add: captureScreenshot_def i Let_def split: prod.splits)
qed

lemma captureScreenshot_order:
  "runsBefore isTrustEvent isAuthEvent (snd (fst (captureScreenshot e url userId subject captureEvt s)))"
proof (cases "initBrowser e s")
  case (Pair r s1)
  show ?thesis
  proof (cases r)
    case (Inl msg)
    with Pair show ?thesis by (simp add: captureScreenshot_def)
  next
    case (Inr evs0)
    with Pair have e0: "evs0 = (if browser s then [] else [Launch])"
      using initBrowser_events by blast
    show ?thesis
    proof (cases "gotoError e")
      case (Some msg)
      with Pair Inr e0 show ?thesis
        by (simp add: captureScreenshot_def Let_def isAuthEvent_def isTrustEvent_def split: prod.splits)
    next
      case None
      have b: "browser s \<or> launchError e = None"
        using Pair Inr by (auto simp: initBrowser_def split: if_splits prod.splits option.splits)
      obtain path where "snd (fst (captureScreenshot e url userId subject captureEvt s)) =
           (if browser s then [] else [Launch]) @ [Goto url] @ handleTrust e @ [Wait 3000]
             @ handleLogin e @ [WorkspaceSetup] @ detectContent e @ [Screenshot path, ClosePage]"
        using captureScreenshot_events [OF b None, of url userId subject captureEvt] by blast
      then have ev: "snd (fst (captureScreenshot e url userId subject captureEvt s)) =
           ((if browser s then [] else [Launch]) @ [Goto url] @ handleTrust e @ [Wait 3000])
             @ (handleLogin e @ [WorkspaceSetup] @ detectContent e @ [Screenshot path, ClosePage])"
        by simp
      have 1: "\<not> list_ex isAuthEvent ((if browser s then [] else [Launch]) @ [Goto url] @ handleTrust e @ [Wait 3000])"
        using no_auth_in_handleTrust [of e] by (simp add: isAuthEvent_def)
      have 2: "\<not> list_ex isTrustEvent (handleLogin e @ [WorkspaceSetup] @ detectContent e @ [Screenshot path, ClosePage])"
        using no_trust_in_handleLogin [of e] no_trust_in_detectContent [of e] by (simp add: isTrustEvent_def)
      show ?thesis unfolding ev using 1 2 by (rule runsBefore_append)
    qed
  qed
qed

lemma includes_Cons: "str_includes (c # s) x = (prefix x (c # s) \<or> str_includes s x)"
  by (simp add: str_includes_def sublist_Cons_right)

lemma includes_Nil: "str_includes [] x = (x = [])"
  by (simp add: str_includes_def)

lemma example_handleTrust:
  "handleTrust exampleCaptureEnv =
     [Wait 2000, ListButtons, WaitForButton, ClickTrust ''Yes, I trust the authors'', Wait 2000]"
  by (simp add: handleTrust_def exampleCaptureEnv_def findTrustInPage_def mentionsTrust_def
      toLowerCase_def lower_char_def lower_ascii_def trustText_def includes_Cons includes_Nil)

lemma example_handleLogin:
  "handleLogin exampleCaptureEnv =
     [ProbePassword, TypePassword ''cs1234'', PressEnter, Wait 5000, WaitForShell, Wait 3000]"
  by (simp add: handleLogin_def exampleCaptureEnv_def)

lemma example_placeholder_dom: "\<not> found (hasContent (dom exampleCaptureEnv))"
  by (rule hasContent_not_found)
     (simp_all add: exampleCaptureEnv_def includes_Cons includes_Nil isCodeFileName_def endsWith_def
       suffix_to_prefix)

lemma example_detectContent:
  "detectContent exampleCaptureEnv = [WaitForEditor, Wait 3000, AnalyseContent False]"
  using example_placeholder_dom by (simp add: detectContent_def) (simp add: exampleCaptureEnv_def)

lemma example_capture_events:
  "\<exists>path. snd (fst (captureScreenshot exampleCaptureEnv ''http://localhost:8087'' 7 ''Python'' ''manual''
              emptyService)) =
     [Launch, Goto ''http://localhost:8087'',
      Wait 2000, ListButtons, WaitForButton, ClickTrust ''Yes, I trust the authors'', Wait 2000,
      Wait 3000,
      ProbePassword, TypePassword ''cs1234'', PressEnter, Wait 5000, WaitForShell, Wait 3000,
      WorkspaceSetup, WaitForEditor, Wait 3000, AnalyseContent False,
      Screenshot path, ClosePage]"
proof -
  have b: "browser emptyService \<or> launchError exampleCaptureEnv = None"
    by (simp add: exampleCaptureEnv_def)
  have g: "gotoError exampleCaptureEnv = None" by (simp add: exampleCaptureEnv_def)
  have nb: "\<not> browser emptyService" by (simp add: emptyService_def)
  from captureScreenshot_events [OF b g, of "''http://localhost:8087''" 7 "''Python''" "''manual''"]
  show ?thesis
    unfolding example_handleTrust example_handleLogin example_detectContent using nb by simp
qed

text \<open>
  C4 as stated fails. On a page with a password input and a trust button the driver clicks
  the trust button first and types the password afterwards, so the authentication does not
  run before the trust dismissal.
\<close>

theorem authentication_before_trust_counterexample:
  "\<not> runsBefore isAuthEvent isTrustEvent
       (snd (fst (captureScreenshot exampleCaptureEnv ''http://localhost:8087'' 7 ''Python'' ''manual''
                    emptyService)))"
proof -
  obtain path where "snd (fst (captureScreenshot exampleCaptureEnv ''http://localhost:8087'' 7 ''Python'' ''manual''
              emptyService)) =
     [Launch, Goto ''http://localhost:8087'',
      Wait 2000, ListButtons, WaitForButton, ClickTrust ''Yes, I trust the authors'', Wait 2000,
      Wait 3000,
      ProbePassword, TypePassword ''cs1234'', PressEnter, Wait 5000, WaitForShell, Wait 3000,
      WorkspaceSetup, WaitForEditor, Wait 3000, AnalyseContent False,
      Screenshot path, ClosePage]"
    using example_capture_events by blast
  then show ?thesis by (simp add: isAuthEvent_def isTrustEvent_def)
qed

lemma trust_in_handleTrust: "list_ex isTrustEvent (handleTrust e)"
  by (simp add: handleTrust_def isTrustEvent_def)

lemma auth_in_handleLogin: "list_ex isAuthEvent (handleLogin e)"
  by (simp add: handleLogin_def isAuthEvent_def)

text \<open>
  C4, as the code has it. After a navigation that succeeded the driver runs, in this order:
  the trust-dialog dismissal, a wait, the authentication probe, the workspace set-up, the
  content detection and the screenshot. Both the trust handling and the authentication
  probe take place, and no trust event comes after an authentication event.
\<close>

theorem trust_dismissal_precedes_authentication:
  assumes "browser s \<or> launchError e = None" and "gotoError e = None"
  shows "(\<exists>path. snd (fst (captureScreenshot e url userId subject captureEvt s)) =
           (if browser s then [] else [Launch]) @ [Goto url] @ handleTrust e @ [Wait 3000]
             @ handleLogin e @ [WorkspaceSetup] @ detectContent e @ [Screenshot path, ClosePage]) \<and>
         list_ex isTrustEvent (handleTrust e) \<and> list_ex isAuthEvent (handleLogin e) \<and>
         runsBefore isTrustEvent isAuthEvent
           (snd (fst (captureScreenshot e url userId subject captureEvt s)))"
  using captureScreenshot_events [OF assms] trust_in_handleTrust auth_in_handleLogin
    captureScreenshot_order by (intro conjI)

text \<open>
  The example page, with its trust button and its password input.
\<close>

theorem trust_dismissal_precedes_authentication_witness:
  "launchError exampleCaptureEnv = None \<and> gotoError exampleCaptureEnv = None \<and>
   runsBefore isTrustEvent isAuthEvent
     (snd (fst (captureScreenshot exampleCaptureEnv ''http://localhost:8087'' 7 ''Python'' ''manual''
                  emptyService))) \<and>
   list_ex isTrustEvent (handleTrust exampleCaptureEnv) \<and>
   list_ex isAuthEvent (handleLogin exampleCaptureEnv)"
proof -
  have l: "launchError exampleCaptureEnv = None" by (simp add: exampleCaptureEnv_def)
  then have b: "browser emptyService \<or> launchError exampleCaptureEnv = None" by simp
  have g: "gotoError exampleCaptureEnv = None" by (simp add: exampleCaptureEnv_def)
  from trust_dismissal_precedes_authentication
    [OF b g, of "''http://localhost:8087''" 7 "''Python''" "''manual''"] l g
  show ?thesis by blast
qed

text \<open>
  C7 as stated fails on a view-lines text that holds \<open>function isPrime(num)\<close> and the
  word Welcome: the placeholder exclusion wins and, with nothing else on the page, the
  analysis reports no content.
\<close>

theorem readiness_isPrime_with_placeholder_counterexample:
  "str_includes ''// Welcome function isPrime(num) {'' ''function isPrime(num)'' \<and>
   viewLines mixedDom = [''// Welcome function isPrime(num) {''] \<and>
   \<not> found (hasContent mixedDom)"
proof -
  have i: "str_includes ''// Welcome function isPrime(num) {'' ''function isPrime(num)''"
    by (simp add: includes_Cons)
  have v: "viewLines mixedDom = [''// Welcome function isPrime(num) {'']"
    by (simp add: mixedDom_def)
  have w: "str_includes ''// Welcome function isPrime(num) {'' ''Welcome''"
    by (simp add: includes_Cons)
  have n: "\<not> found (hasContent mixedDom)"
    by (rule hasContent_not_found) (simp_all add: v w, simp_all add: mixedDom_def)
  from i v n show ?thesis by (intro conjI)
qed

text \<open>
  C7, as the code has it. A view-lines text that includes \<open>function isPrime(num)\<close> and
  none of the placeholder strings is reported as content found. A page whose view-lines
  texts all hold Welcome or Get Started, with no tab named like a code file, no terminal
  text of more than ten characters and no workbench with an explorer or activity bar, is
  reported as content not found. Either way, when the browser, the navigation and the
  screenshot itself succeed, the capture runs the analysis (once an editor selector has
  appeared), takes the screenshot and returns success.
\<close>

theorem content_readiness_never_aborts:
  assumes "browser s \<or> launchError e = None" and "gotoError e = None"
      and "screenshotError e = None"
  shows "((\<exists>t \<in> set (viewLines (dom e)).
             str_includes t ''function isPrime(num)'' \<and> placeholderFree t)
          \<longrightarrow> found (hasContent (dom e))) \<and>
         (((\<forall>t \<in> set (viewLines (dom e)). str_includes t ''Welcome'' \<or> str_includes t ''Get Started'')
           \<and> \<not> list_ex isCodeFileName (tabLabels (dom e))
           \<and> (\<forall>t \<in> set (terminals (dom e)). length (trim t) \<le> 10)
           \<and> \<not> (hasWorkbench (dom e) \<and> (hasExplorer (dom e) \<or> hasActivitybar (dom e))))
          \<longrightarrow> \<not> found (hasContent (dom e))) \<and>
         (editorAppears e \<longrightarrow>
            AnalyseContent (found (hasContent (dom e)))
              \<in> set (snd (fst (captureScreenshot e url userId subject captureEvt s)))) \<and>
         success (fst (fst (captureScreenshot e url userId subject captureEvt s))) \<and>
         (\<exists>path. Screenshot path \<in> set (snd (fst (captureScreenshot e url userId subject captureEvt s))))"
proof -
  have 1: "(\<exists>t \<in> set (viewLines (dom e)).
             str_includes t ''function isPrime(num)'' \<and> placeholderFree t)
          \<longrightarrow> found (hasContent (dom e))"
    using hasContent_found_code(1) by blast
  have 2: "((\<forall>t \<in> set (viewLines (dom e)). str_includes t ''Welcome'' \<or> str_includes t ''Get Started'')
           \<and> \<not> list_ex isCodeFileName (tabLabels (dom e))
           \<and> (\<forall>t \<in> set (terminals (dom e)). length (trim t) \<le> 10)
           \<and> \<not> (hasWorkbench (dom e) \<and> (hasExplorer (dom e) \<or> hasActivitybar (dom e))))
          \<longrightarrow> \<not> found (hasContent (dom e))"
    using hasContent_not_found [of "dom e"] by blast
  have 3: "success (fst (fst (captureScreenshot e url userId subject captureEvt s)))"
    using assms by (rule captureScreenshot_success)
  obtain path where "snd (fst (captureScreenshot e url userId subject captureEvt s)) =
           (if browser s then [] else [Launch]) @ [Goto url] @ handleTrust e @ [Wait 3000]
             @ handleLogin e @ [WorkspaceSetup] @ detectContent e @ [Screenshot path, ClosePage]"
    using captureScreenshot_events [OF assms(1,2), of url userId subject captureEvt] by blast
  then have 4: "\<exists>path. Screenshot path \<in> set (snd (fst (captureScreenshot e url userId subject captureEvt s)))"
    and 5: "editorAppears e \<longrightarrow>
            AnalyseContent (found (hasContent (dom e)))
              \<in> set (snd (fst (captureScreenshot e url userId subject captureEvt s)))"
    by (auto simp: detectContent_def)
  from 1 2 5 3 4 show ?thesis by (intro conjI)
qed

text \<open>
  The code page is found, the placeholder page is not, and both captures succeed.
\<close>

theorem content_readiness_never_aborts_witness:
  "found (hasContent (dom (exampleCaptureEnv\<lparr>dom := codeDom\<rparr>))) \<and>
   success (fst (fst (captureScreenshot (exampleCaptureEnv\<lparr>dom := codeDom\<rparr>)
                        ''http://localhost:8087'' 7 ''JavaScript'' ''manual'' emptyService))) \<and>
   \<not> found (hasContent (dom exampleCaptureEnv)) \<and>
   success (fst (fst (captureScreenshot exampleCaptureEnv
                        ''http://localhost:8087'' 7 ''JavaScript'' ''manual'' emptyService)))"
proof -
  let ?e = "exampleCaptureEnv\<lparr>dom := codeDom\<rparr>"
  have b: "browser emptyService \<or> launchError ?e = None" "gotoError ?e = None"
    "screenshotError ?e = None"
    by (simp_all add: exampleCaptureEnv_def)
  have b': "browser emptyService \<or> launchError exampleCaptureEnv = None"
    "gotoError exampleCaptureEnv = None" "screenshotError exampleCaptureEnv = None"
    by (simp_all add: exampleCaptureEnv_def)
  have code: "\<exists>t \<in> set (viewLines (dom ?e)).
      str_includes t ''function isPrime(num)'' \<and> placeholderFree t"
    by (simp add: codeDom_def placeholderFree_def includes_Cons includes_Nil)
  have ph: "(\<forall>t \<in> set (viewLines (dom exampleCaptureEnv)).
               str_includes t ''Welcome'' \<or> str_includes t ''Get Started'')
           \<and> \<not> list_ex isCodeFileName (tabLabels (dom exampleCaptureEnv))
           \<and> (\<forall>t \<in> set (terminals (dom exampleCaptureEnv)). length (trim t) \<le> 10)
           \<and> \<not> (hasWorkbench (dom exampleCaptureEnv)
                \<and> (hasExplorer (dom exampleCaptureEnv) \<or> hasActivitybar (dom exampleCaptureEnv)))"
    by (simp add: exampleCaptureEnv_def includes_Cons includes_Nil isCodeFileName_def endsWith_def
        suffix_to_prefix)
  note m1 = content_readiness_never_aborts
    [OF b, of "''http://localhost:8087''" 7 "''JavaScript''" "''manual''"]
  note m2 = content_readiness_never_aborts
    [OF b', of "''http://localhost:8087''" 7 "''JavaScript''" "''manual''"]
  from m1 code have f1: "found (hasContent (dom ?e))" by blast
  from m1 have s1: "success (fst (fst (captureScreenshot ?e
                        ''http://localhost:8087'' 7 ''JavaScript'' ''manual'' emptyService)))" by blast
  from m2 ph have f2: "\<not> found (hasContent (dom exampleCaptureEnv))" by blast
  from m2 have s2: "success (fst (fst (captureScreenshot exampleCaptureEnv
                        ''http://localhost:8087'' 7 ''JavaScript'' ''manual'' emptyService)))" by blast
  from f1 s1 f2 s2 show ?thesis by (intro conjI)
qed

section \<open>Properties of the submission capture\<close>

lemma failedResult_url [simp]:
  "resultContainerUrl (failedResult msg url userId subject ct) = Some url"
  by (simp add: failedResult_def)




lemma show_int_plus_nat: "show_int (int p) = show_nat p"
  by (simp add: show_int_def)






end
